theory Spec2Isabelle
  imports Complex_Main "HOL-Library.AList" "HOL-Library.Multiset"
begin

section \<open>Data model\<close>

text \<open>
  The repository holds three scripts over the same two inputs: a district boundary file
  (\<^verbatim>\<open>up_districts.geojson\<close>) and a table of sensor readings (\<^verbatim>\<open>data.csv\<close>).
  \<^verbatim>\<open>main.py\<close> and \<^verbatim>\<open>scalp.py\<close> draw markers on a map, \<^verbatim>\<open>terra.py\<close> counts markers
  per district and exports the counts. \<^verbatim>\<open>scalp.py\<close> shares \<^verbatim>\<open>get_district_name\<close> and the
  column check with \<^verbatim>\<open>main.py\<close> line for line, so the development covers \<^verbatim>\<open>main.py\<close>
  and \<^verbatim>\<open>terra.py\<close>.

  Coordinates are finite floating point numbers compared only with the constants
  \<open>-180, -90, 90, 180\<close>; they are modelled as reals. A missing cell (NaN) of the readings
  table is \<open>None\<close>. District names are ASCII strings.
\<close>

type_synonym point = "real \<times> real"

definition Point :: "real \<Rightarrow> real \<Rightarrow> point" where
  \<comment> \<open>\<^verbatim>\<open>shapely.geometry.Point(x, y)\<close>: the scripts call it as \<^verbatim>\<open>Point(lon, lat)\<close>.\<close>
  "Point x y = (x, y)"

text \<open>
  The geometry library is not part of the repository. Every function below takes its
  containment test \<^verbatim>\<open>geometry.contains(point)\<close> as the parameter \<open>contains\<close>, over an
  arbitrary type of geometries. Concrete examples use rectangular polygons, for which
  the library's documented predicate holds exactly for the points of the interior: a
  point on the boundary of a polygon is not contained in it.
\<close>

datatype geometry = Box real real real real

fun box_contains :: "geometry \<Rightarrow> point \<Rightarrow> bool" where
  "box_contains (Box minx miny maxx maxy) (x, y) =
     (minx < x \<and> x < maxx \<and> miny < y \<and> y < maxy)"

fun box_boundary :: "geometry \<Rightarrow> point \<Rightarrow> bool" where
  "box_boundary (Box minx miny maxx maxy) (x, y) =
     (minx \<le> x \<and> x \<le> maxx \<and> miny \<le> y \<and> y \<le> maxy \<and>
      (x = minx \<or> x = maxx \<or> y = miny \<or> y = maxy))"

datatype key_site = FrameColumn | RowColumn | CountsDict

datatype diagnostic = CsvMustContainColumns "string list" | NoDistrictColumn

datatype error =
    SystemExit int diagnostic
  | KeyError key_site string

definition bind_err :: "error + 'a \<Rightarrow> ('a \<Rightarrow> error + 'b) \<Rightarrow> error + 'b" where
  "bind_err r k = (case r of Inl e \<Rightarrow> Inl e | Inr v \<Rightarrow> k v)"

text \<open>
  A data frame has a list of column names and rows that give a cell for every column
  name; reading a column the frame does not have raises \<^verbatim>\<open>KeyError\<close>.
\<close>

record 'g geoframe =
  gcolumns :: "string list"
  gfeatures :: "((string \<Rightarrow> string) \<times> 'g) list"

type_synonym reading = "string \<Rightarrow> real option"

record table =
  tcolumns :: "string list"
  trows :: "reading list"

definition row_get :: "string list \<Rightarrow> reading \<Rightarrow> string \<Rightarrow> error + real option" where
  "row_get cols row c = (if c \<in> set cols then Inr (row c) else Inl (KeyError RowColumn c))"

type_synonym 'g districts = "(string \<times> 'g) list"

section \<open>Python's \<^verbatim>\<open>str.title\<close> on ASCII text\<close>

definition is_upper :: "char \<Rightarrow> bool" where
  "is_upper c = (65 \<le> (of_char c :: nat) \<and> (of_char c :: nat) \<le> 90)"

definition is_lower :: "char \<Rightarrow> bool" where
  "is_lower c = (97 \<le> (of_char c :: nat) \<and> (of_char c :: nat) \<le> 122)"

definition is_cased :: "char \<Rightarrow> bool" where
  "is_cased c = (is_upper c \<or> is_lower c)"

definition to_upper :: "char \<Rightarrow> char" where
  "to_upper c = (if is_lower c then char_of (of_char c - 32 :: nat) else c)"

definition to_lower :: "char \<Rightarrow> char" where
  "to_lower c = (if is_upper c then char_of (of_char c + 32 :: nat) else c)"

fun title_from :: "bool \<Rightarrow> string \<Rightarrow> string" where
  "title_from previous_is_cased [] = []"
| "title_from previous_is_cased (c # cs) =
     (if previous_is_cased then to_lower c else to_upper c) # title_from (is_cased c) cs"

definition title :: "string \<Rightarrow> string" where
  "title s = title_from False s"

section \<open>Classification\<close>

definition valid_coordinates :: "real \<Rightarrow> real \<Rightarrow> bool" where
  \<comment> \<open>\<^verbatim>\<open>-90 <= lat <= 90 and -180 <= lon <= 180\<close>\<close>
  "valid_coordinates lat lon = (-90 \<le> lat \<and> lat \<le> 90 \<and> -180 \<le> lon \<and> lon \<le> 180)"

fun first_containing :: "('g \<Rightarrow> point \<Rightarrow> bool) \<Rightarrow> 'g districts \<Rightarrow> point \<Rightarrow> string option" where
  \<comment> \<open>\<^verbatim>\<open>for _, row in districts.iterrows(): if row['geometry'].contains(point): return ...\<close>\<close>
  "first_containing contains [] point = None"
| "first_containing contains ((name, geom) # rest) point =
     (if contains geom point then Some name else first_containing contains rest point)"

definition main_get_district_name ::
  "('g \<Rightarrow> point \<Rightarrow> bool) \<Rightarrow> 'g districts \<Rightarrow> real \<Rightarrow> real \<Rightarrow> string" where
  "main_get_district_name contains districts lat lon =
     (if \<not> valid_coordinates lat lon then ''Invalid Coordinates''
      else case first_containing contains districts (Point lon lat) of
             Some name \<Rightarrow> title name
           | None \<Rightarrow> ''District out of UP'')"

definition terra_get_district_name ::
  "('g \<Rightarrow> point \<Rightarrow> bool) \<Rightarrow> 'g districts \<Rightarrow> real \<Rightarrow> real \<Rightarrow> string option" where
  "terra_get_district_name contains districts lat lon =
     first_containing contains districts (Point lon lat)"

definition standardize :: "'g districts \<Rightarrow> 'g districts" where
  \<comment> \<open>\<^verbatim>\<open>main.py\<close> line 30: \<^verbatim>\<open>districts[col] = districts[col].str.title()\<close>\<close>
  "standardize districts = map (\<lambda>(name, geom). (title name, geom)) districts"

section \<open>Reading the two inputs\<close>

definition required_cols :: "string list" where
  "required_cols = [''Lat1'', ''Long1'', ''Lat2'', ''Long2'']"

definition named_districts :: "string \<Rightarrow> 'g geoframe \<Rightarrow> 'g districts" where
  \<comment> \<open>the rows of \<^verbatim>\<open>districts.iterrows()\<close>, read at \<^verbatim>\<open>district_name_col\<close> and \<^verbatim>\<open>'geometry'\<close>\<close>
  "named_districts col frame = map (\<lambda>(props, geom). (props col, geom)) (gfeatures frame)"

definition present_pair ::
  "string list \<Rightarrow> reading \<Rightarrow> string \<Rightarrow> string \<Rightarrow> error + (real \<times> real) option" where
  \<comment> \<open>\<^verbatim>\<open>pd.notna(row[a]) and pd.notna(row[b])\<close>: \<^verbatim>\<open>row[b]\<close> is read only when \<^verbatim>\<open>row[a]\<close> is
      not NaN\<close>
  "present_pair cols row a b =
     bind_err (row_get cols row a) (\<lambda>va.
       case va of
         None \<Rightarrow> Inr None
       | Some x \<Rightarrow>
           bind_err (row_get cols row b) (\<lambda>vb.
             case vb of None \<Rightarrow> Inr None | Some y \<Rightarrow> Inr (Some (x, y))))"

fun for_rows :: "('s \<Rightarrow> 'r \<Rightarrow> error + 's) \<Rightarrow> 'r list \<Rightarrow> 's \<Rightarrow> error + 's" where
  \<comment> \<open>\<^verbatim>\<open>for _, row in data.iterrows(): body\<close>, stopping at the first exception\<close>
  "for_rows body [] s = Inr s"
| "for_rows body (row # rows) s =
     (case body s row of Inl e \<Rightarrow> Inl e | Inr s' \<Rightarrow> for_rows body rows s')"

section \<open>\<^verbatim>\<open>main.py\<close>: markers on the map\<close>

text \<open>
  The inputs are the two loaded frames (a missing file ends \<^verbatim>\<open>main.py\<close> with
  \<^verbatim>\<open>exit(1)\<close> before anything else happens). Of the map, the model keeps the markers of
  the three feature groups, in the order they are added.
\<close>

record marker =
  location :: "real \<times> real"
  popup :: string
  color :: string

record feature_groups =
  districts_fg :: "marker list"
  imd_fg :: "marker list"
  rahat_fg :: "marker list"

definition no_markers :: feature_groups where
  "no_markers = \<lparr>districts_fg = [], imd_fg = [], rahat_fg = []\<rparr>"

definition circle_marker :: "real \<Rightarrow> real \<Rightarrow> string \<Rightarrow> string \<Rightarrow> string \<Rightarrow> marker" where
  "circle_marker lat lon district kind col =
     \<lparr>location = (lat, lon),
      popup = ''District: '' @ district @ ''<br>Type: '' @ kind,
      color = col\<rparr>"

definition imd_marker_body ::
  "('g \<Rightarrow> point \<Rightarrow> bool) \<Rightarrow> 'g districts \<Rightarrow> string list \<Rightarrow> feature_groups \<Rightarrow> reading
     \<Rightarrow> error + feature_groups" where
  "imd_marker_body contains districts cols fg row =
     bind_err (present_pair cols row ''Lat1'' ''Long1'') (\<lambda>pair.
       case pair of
         None \<Rightarrow> Inr fg
       | Some (lat, lon) \<Rightarrow>
           (let district = main_get_district_name contains districts lat lon in
            if district \<notin> set [''District out of UP'', ''Invalid Coordinates'']
            then (let m = circle_marker lat lon district ''IMD'' ''green''
                  in Inr (fg\<lparr>imd_fg := imd_fg fg @ [m], districts_fg := districts_fg fg @ [m]\<rparr>))
            else Inr fg))"

definition rahat_marker_body ::
  "('g \<Rightarrow> point \<Rightarrow> bool) \<Rightarrow> 'g districts \<Rightarrow> string list \<Rightarrow> feature_groups \<Rightarrow> reading
     \<Rightarrow> error + feature_groups" where
  "rahat_marker_body contains districts cols fg row =
     bind_err (present_pair cols row ''Lat2'' ''Long2'') (\<lambda>pair.
       case pair of
         None \<Rightarrow> Inr fg
       | Some (lat, lon) \<Rightarrow>
           (let district = main_get_district_name contains districts lat lon in
            if district \<notin> set [''District out of UP'', ''Invalid Coordinates'']
            then (let m = circle_marker lat lon district ''Rahat'' ''orange''
                  in Inr (fg\<lparr>rahat_fg := rahat_fg fg @ [m], districts_fg := districts_fg fg @ [m]\<rparr>))
            else Inr fg))"

definition main_district_name_col :: "string list \<Rightarrow> string option" where
  \<comment> \<open>\<^verbatim>\<open>next((col for col in ['district', 'DISTRICT'] if col in districts.columns), None)\<close>\<close>
  "main_district_name_col columns = find (\<lambda>col. col \<in> set columns) [''district'', ''DISTRICT'']"

definition main_run ::
  "('g \<Rightarrow> point \<Rightarrow> bool) \<Rightarrow> 'g geoframe \<Rightarrow> table \<Rightarrow> error + feature_groups" where
  "main_run contains frame data =
     (if \<not> (\<forall>col \<in> set required_cols. col \<in> set (tcolumns data))
      then Inl (SystemExit 1 (CsvMustContainColumns required_cols))
      else case main_district_name_col (gcolumns frame) of
        None \<Rightarrow> Inl (SystemExit 1 NoDistrictColumn)
      | Some col \<Rightarrow>
          (let districts = standardize (named_districts col frame) in
           bind_err (for_rows (imd_marker_body contains districts (tcolumns data))
                       (trows data) no_markers) (\<lambda>fg.
             for_rows (rahat_marker_body contains districts (tcolumns data)) (trows data) fg)))"

section \<open>\<^verbatim>\<open>terra.py\<close>: counts per district\<close>

datatype colour = Green | Red

type_synonym counts = "(string \<times> (int \<times> int)) list"

definition counts_init :: "string list \<Rightarrow> counts" where
  \<comment> \<open>\<^verbatim>\<open>{district: {'Green': 0, 'Red': 0} for district in districts[district_name_col]}\<close>:
      a dictionary keeps a key at the place of its first insertion\<close>
  "counts_init names = fold (\<lambda>district counts. AList.update district (0, 0) counts) names []"

definition increment :: "colour \<Rightarrow> string \<Rightarrow> counts \<Rightarrow> error + counts" where
  \<comment> \<open>\<^verbatim>\<open>counts[district][colour] += 1\<close>\<close>
  "increment c district counts =
     (case map_of counts district of
        None \<Rightarrow> Inl (KeyError CountsDict district)
      | Some (green, red) \<Rightarrow>
          Inr (AList.update district
                 (case c of Green \<Rightarrow> (green + 1, red) | Red \<Rightarrow> (green, red + 1)) counts))"

definition count_body ::
  "('g \<Rightarrow> point \<Rightarrow> bool) \<Rightarrow> 'g districts \<Rightarrow> string list \<Rightarrow> string \<Rightarrow> string \<Rightarrow> colour
     \<Rightarrow> counts \<Rightarrow> reading \<Rightarrow> error + counts" where
  \<comment> \<open>the body of both counting loops; they differ in the two column names and the colour.
      \<^verbatim>\<open>if district:\<close> is false for \<^verbatim>\<open>None\<close> and for the empty string\<close>
  "count_body contains districts cols lat_col lon_col c counts row =
     bind_err (present_pair cols row lat_col lon_col) (\<lambda>pair.
       case pair of
         None \<Rightarrow> Inr counts
       | Some (lat, lon) \<Rightarrow>
           (case terra_get_district_name contains districts lat lon of
              None \<Rightarrow> Inr counts
            | Some district \<Rightarrow>
                if district = [] then Inr counts else increment c district counts))"

definition terra_district_name_col :: "string list \<Rightarrow> string" where
  \<comment> \<open>\<^verbatim>\<open>'district' if 'district' in districts.columns else 'DISTRICT'\<close>\<close>
  "terra_district_name_col columns =
     (if ''district'' \<in> set columns then ''district'' else ''DISTRICT'')"

definition output_df :: "counts \<Rightarrow> (string \<times> int \<times> int) list" where
  \<comment> \<open>the rows \<^verbatim>\<open>District, Green_Markers, Red_Markers\<close> of the exported sheet\<close>
  "output_df counts = map (\<lambda>(district, (green, red)). (district, green, red)) counts"

definition terra_run ::
  "('g \<Rightarrow> point \<Rightarrow> bool) \<Rightarrow> 'g geoframe \<Rightarrow> table \<Rightarrow> error + (string \<times> int \<times> int) list" where
  "terra_run contains frame data =
     (let col = terra_district_name_col (gcolumns frame) in
      if col \<notin> set (gcolumns frame) then Inl (KeyError FrameColumn col)
      else
        (let districts = named_districts col frame;
             counts = counts_init (map fst districts);
             cols = tcolumns data
         in bind_err (for_rows (count_body contains districts cols ''Lat1'' ''Long1'' Green)
                        (trows data) counts) (\<lambda>counts.
            bind_err (for_rows (count_body contains districts cols ''Lat2'' ''Long2'' Red)
                        (trows data) counts) (\<lambda>counts.
            Inr (output_df counts)))))"

section \<open>Closed form of the counting loops\<close>

text \<open>
  The following functions are not in the source. They describe what one counting loop
  computes: the district a row is counted for, the counter update as a map over the
  dictionary, and the exception a loop ends with.
\<close>

definition row_district ::
  "('g \<Rightarrow> point \<Rightarrow> bool) \<Rightarrow> 'g districts \<Rightarrow> string \<Rightarrow> string \<Rightarrow> reading \<Rightarrow> string option" where
  "row_district contains districts lat_col lon_col row =
     (case row lat_col of
        None \<Rightarrow> None
      | Some lat \<Rightarrow>
          (case row lon_col of
             None \<Rightarrow> None
           | Some lon \<Rightarrow>
               (case terra_get_district_name contains districts lat lon of
                  None \<Rightarrow> None
                | Some district \<Rightarrow> if district = [] then None else Some district)))"

definition step :: "colour \<Rightarrow> int \<times> int \<Rightarrow> int \<times> int" where
  "step c v = (case c of Green \<Rightarrow> (fst v + 1, snd v) | Red \<Rightarrow> (fst v, snd v + 1))"

definition bump :: "colour \<Rightarrow> string \<Rightarrow> counts \<Rightarrow> counts" where
  "bump c district counts =
     map (\<lambda>(k, v). if k = district then (k, step c v) else (k, v)) counts"

definition loop_error :: "string list \<Rightarrow> string \<Rightarrow> string \<Rightarrow> reading list \<Rightarrow> error option" where
  "loop_error cols lat_col lon_col rows =
     (if rows \<noteq> [] \<and> lat_col \<notin> set cols then Some (KeyError RowColumn lat_col)
      else if lon_col \<notin> set cols \<and> (\<exists>row \<in> set rows. row lat_col \<noteq> None)
      then Some (KeyError RowColumn lon_col)
      else None)"

definition tally ::
  "('g \<Rightarrow> point \<Rightarrow> bool) \<Rightarrow> 'g districts \<Rightarrow> reading list \<Rightarrow> counts" where
  "tally contains districts rows =
     fold (bump Red) (List.map_filter (row_district contains districts ''Lat2'' ''Long2'') rows)
       (fold (bump Green) (List.map_filter (row_district contains districts ''Lat1'' ''Long1'') rows)
          (counts_init (map fst districts)))"

section \<open>Example inputs\<close>

definition example_frame :: "geometry geoframe" where
  "example_frame =
     \<lparr>gcolumns = [''district''],
      gfeatures = [(\<lambda>_. ''lucknow'', Box 80 26 82 28), (\<lambda>_. ''agra'', Box 77 26 79 28)]\<rparr>"

definition reading_of :: "real option \<Rightarrow> real option \<Rightarrow> real option \<Rightarrow> real option \<Rightarrow> reading" where
  "reading_of lat1 long1 lat2 long2 =
     (\<lambda>_. None)(''Lat1'' := lat1, ''Long1'' := long1, ''Lat2'' := lat2, ''Long2'' := long2)"

section \<open>Properties of \<^verbatim>\<open>str.title\<close>\<close>

lemma to_upper_idem: "to_upper (to_upper c) = to_upper c"
  by (auto simp: to_upper_def is_lower_def)

lemma to_lower_idem: "to_lower (to_lower c) = to_lower c"
  by (auto simp: to_lower_def is_upper_def)

lemma is_cased_to_upper: "is_cased (to_upper c) = is_cased c"
  by (auto simp: to_upper_def is_cased_def is_lower_def is_upper_def)

lemma is_cased_to_lower: "is_cased (to_lower c) = is_cased c"
  by (auto simp: to_lower_def is_cased_def is_lower_def is_upper_def)

lemma title_from_idem: "title_from p (title_from p s) = title_from p s"
proof (induction s arbitrary: p)
  case Nil
  show ?case by simp
next
  case (Cons c cs)
  show ?case
    by (cases p) (simp_all add: to_upper_idem to_lower_idem is_cased_to_upper
        is_cased_to_lower Cons.IH)
qed

lemma title_idem: "title (title s) = title s"
  by (simp add: title_def title_from_idem)

section \<open>Properties of classification\<close>

lemma first_containing_skip:
  assumes "\<forall>(n, g) \<in> set pre. \<not> contains g p"
  shows "first_containing contains (pre @ rest) p = first_containing contains rest p"
  using assms by (induction pre) auto

lemma first_containing_Some:
  assumes "first_containing contains districts p = Some name"
  shows "\<exists>pre g post. districts = pre @ (name, g) # post \<and> contains g p \<and>
           (\<forall>(n, g') \<in> set pre. \<not> contains g' p)"
  using assms
proof (induction districts)
  case Nil
  then show ?case by simp
next
  case (Cons row rest)
  obtain n g where row: "row = (n, g)" by (cases row)
  show ?case
  proof (cases "contains g p")
    case True
    with Cons.prems row have "name = n" by simp
    with True row have "row # rest = [] @ (name, g) # rest \<and> contains g p \<and>
        (\<forall>(n, g') \<in> set []. \<not> contains g' p)" by simp
    then show ?thesis by (intro exI [of _ "[]"] exI [of _ g] exI [of _ rest])
  next
    case False
    with Cons.prems row have "first_containing contains rest p = Some name" by simp
    from Cons.IH [OF this] obtain pre g' post where
      h: "rest = pre @ (name, g') # post" "contains g' p" "\<forall>(n, g'') \<in> set pre. \<not> contains g'' p"
      by auto
    from h False row have "row # rest = (row # pre) @ (name, g') # post \<and> contains g' p \<and>
        (\<forall>(n, g'') \<in> set (row # pre). \<not> contains g'' p)" by simp
    then show ?thesis by (intro exI [of _ "row # pre"] exI [of _ g'] exI [of _ post])
  qed
qed

lemma first_containing_None:
  "first_containing contains districts p = None \<longleftrightarrow>
     (\<forall>(n, g) \<in> set districts. \<not> contains g p)"
proof (induction districts)
  case Nil
  show ?case by simp
next
  case (Cons row rest)
  obtain n g where row: "row = (n, g)" by (cases row)
  show ?case using Cons.IH by (simp add: row)
qed

lemma first_containing_standardize:
  "first_containing contains (standardize districts) p =
     map_option title (first_containing contains districts p)"
  by (induction districts) (auto simp: standardize_def)

lemma first_containing_in_names:
  "first_containing contains districts p = Some name \<Longrightarrow> name \<in> set (map fst districts)"
  by (induction districts) (auto split: if_splits)

section \<open>Claims about classification\<close>

lemma title_examples:
  "title ''lucknow'' = ''Lucknow''" "title ''Lucknow'' = ''Lucknow''" "title ''Agra'' = ''Agra''"
  by code_simp+

text \<open>
  C1 (amended). In \<^verbatim>\<open>main.py\<close> (and \<^verbatim>\<open>scalp.py\<close>), for every pair with \<open>|lat| > 90\<close> or
  \<open>|lon| > 180\<close>, \<^verbatim>\<open>get_district_name\<close> returns \<^verbatim>\<open>"Invalid Coordinates"\<close> whatever the
  regions and the containment test are. \<^verbatim>\<open>terra.py\<close> has no range check: on such a pair
  its \<^verbatim>\<open>get_district_name\<close> returns \<^verbatim>\<open>None\<close> exactly when no region contains the point,
  and otherwise the name of the first region in store order that contains it.
\<close>

theorem invalid_coordinates_rejected_by_main:
  assumes "\<bar>lat\<bar> > 90 \<or> \<bar>lon\<bar> > 180"
  shows "main_get_district_name contains districts lat lon = ''Invalid Coordinates'' \<and>
         (terra_get_district_name contains districts lat lon = None \<longleftrightarrow>
            (\<forall>(n, g) \<in> set districts. \<not> contains g (Point lon lat))) \<and>
         (\<forall>pre name g post.
            districts = pre @ (name, g) # post \<and>
            (\<forall>(n, g') \<in> set pre. \<not> contains g' (Point lon lat)) \<and>
            contains g (Point lon lat) \<longrightarrow>
            terra_get_district_name contains districts lat lon = Some name)"
proof (intro conjI allI impI)
  show "main_get_district_name contains districts lat lon = ''Invalid Coordinates''"
    using assms by (auto simp: main_get_district_name_def valid_coordinates_def)
  show "terra_get_district_name contains districts lat lon = None \<longleftrightarrow>
            (\<forall>(n, g) \<in> set districts. \<not> contains g (Point lon lat))"
    by (simp add: terra_get_district_name_def first_containing_None)
next
  fix pre name g post
  assume h: "districts = pre @ (name, g) # post \<and>
            (\<forall>(n, g') \<in> set pre. \<not> contains g' (Point lon lat)) \<and>
            contains g (Point lon lat)"
  then have "first_containing contains (pre @ (name, g) # post) (Point lon lat) = Some name"
    by (simp add: first_containing_skip)
  with h show "terra_get_district_name contains districts lat lon = Some name"
    by (simp add: terra_get_district_name_def)
qed

theorem invalid_coordinates_rejected_by_main_witness:
  "\<bar>181::real\<bar> > 180 \<and>
   main_get_district_name box_contains
     [(''Agra'', Box 77 26 79 28), (''Lucknow'', Box 170 (-10) 190 10), (''Unnao'', Box 175 (-5) 185 5)]
     0 181 = ''Invalid Coordinates'' \<and>
   box_contains (Box 175 (-5) 185 5) (Point 181 0) \<and>
   terra_get_district_name box_contains
     [(''Agra'', Box 77 26 79 28), (''Lucknow'', Box 170 (-10) 190 10), (''Unnao'', Box 175 (-5) 185 5)]
     0 181 = Some ''Lucknow'' \<and>
   terra_get_district_name box_contains [(''Agra'', Box 77 26 79 28)] 0 181 = None"
proof -
  define districts where "districts =
    [(''Agra'', Box 77 26 79 28), (''Lucknow'', Box 170 (-10) 190 10), (''Unnao'', Box 175 (-5) 185 5)]"
  have h: "\<bar>0::real\<bar> > 90 \<or> \<bar>181::real\<bar> > 180" by simp
  note t = invalid_coordinates_rejected_by_main [OF h, of box_contains districts]
  note u = invalid_coordinates_rejected_by_main [OF h, of box_contains "[(''Agra'', Box 77 26 79 28)]"]
  have m: "main_get_district_name box_contains districts 0 181 = ''Invalid Coordinates''"
    by (rule conjunct1 [OF t])
  have f: "districts = [(''Agra'', Box 77 26 79 28)] @ (''Lucknow'', Box 170 (-10) 190 10)
        # [(''Unnao'', Box 175 (-5) 185 5)] \<and>
      (\<forall>(n, g') \<in> set [(''Agra'', Box 77 26 79 28)]. \<not> box_contains g' (Point 181 0)) \<and>
      box_contains (Box 170 (-10) 190 10) (Point 181 0)"
    by (simp add: districts_def Point_def)
  have a: "terra_get_district_name box_contains districts 0 181 = Some ''Lucknow''"
    by (rule mp [OF spec [OF spec [OF spec [OF spec [OF conjunct2 [OF conjunct2 [OF t]]]]]] f])
  have n: "terra_get_district_name box_contains [(''Agra'', Box 77 26 79 28)] 0 181 = None"
    using conjunct1 [OF conjunct2 [OF u]] by (simp add: Point_def)
  show ?thesis using m a n by (simp add: districts_def Point_def)
qed

text \<open>
  C1 as stated fails for \<^verbatim>\<open>terra.py\<close>: a longitude of 181 is classified into a region
  whose polygon extends beyond the 180th meridian.
\<close>

theorem terra_classifies_invalid_longitude:
  "\<bar>181::real\<bar> > 180 \<and>
   terra_get_district_name box_contains [(''Lucknow'', Box 170 (-10) 190 10)] 0 181
     = Some ''Lucknow''"
  by (simp add: terra_get_district_name_def Point_def)

text \<open>
  C3 (amended). For every valid pair that the library's containment test reports inside
  some region (for a polygon: in its interior), the lookup returns the name of a region
  that contains the point; when no region contains the point the result is
  \<^verbatim>\<open>"District out of UP"\<close> in \<^verbatim>\<open>main.py\<close> and \<^verbatim>\<open>None\<close> in \<^verbatim>\<open>terra.py\<close>. A point on the
  boundary of a rectangular region is not contained in it.
\<close>

theorem contained_point_is_classified:
  "(valid_coordinates lat lon \<and> (n, g) \<in> set districts \<and> contains g (Point lon lat) \<longrightarrow>
      (\<exists>n' g'. (n', g') \<in> set districts \<and> contains g' (Point lon lat) \<and>
         main_get_district_name contains districts lat lon = title n' \<and>
         terra_get_district_name contains districts lat lon = Some n')) \<and>
   (valid_coordinates lat lon \<and> (\<forall>(n, g) \<in> set districts. \<not> contains g (Point lon lat)) \<longrightarrow>
      main_get_district_name contains districts lat lon = ''District out of UP'' \<and>
      terra_get_district_name contains districts lat lon = None) \<and>
   (box_boundary b q \<longrightarrow> \<not> box_contains b q)"
proof (intro conjI impI)
  assume h: "valid_coordinates lat lon \<and> (n, g) \<in> set districts \<and> contains g (Point lon lat)"
  then have "first_containing contains districts (Point lon lat) \<noteq> None"
    by (auto simp: first_containing_None)
  then obtain n' where n': "first_containing contains districts (Point lon lat) = Some n'"
    by auto
  from first_containing_Some [OF n'] obtain pre g' post where
    d: "districts = pre @ (n', g') # post" and c: "contains g' (Point lon lat)" by auto
  from d have "(n', g') \<in> set districts" by simp
  with c n' h show "\<exists>n' g'. (n', g') \<in> set districts \<and> contains g' (Point lon lat) \<and>
         main_get_district_name contains districts lat lon = title n' \<and>
         terra_get_district_name contains districts lat lon = Some n'"
    by (intro exI [of _ n'] exI [of _ g'])
      (simp add: main_get_district_name_def terra_get_district_name_def)
next
  assume "valid_coordinates lat lon \<and> (\<forall>(n, g) \<in> set districts. \<not> contains g (Point lon lat))"
  then have "valid_coordinates lat lon"
    and "first_containing contains districts (Point lon lat) = None"
    by (simp_all add: first_containing_None)
  then show "main_get_district_name contains districts lat lon = ''District out of UP''"
    and "terra_get_district_name contains districts lat lon = None"
    by (simp_all add: main_get_district_name_def terra_get_district_name_def)
next
  assume "box_boundary b q"
  then show "\<not> box_contains b q"
    by (cases b; cases q) auto
qed

theorem contained_point_is_classified_witness:
  "main_get_district_name box_contains [(''Lucknow'', Box 80 26 82 28)] 27 81 = ''Lucknow'' \<and>
   terra_get_district_name box_contains [(''Lucknow'', Box 80 26 82 28)] 27 81 = Some ''Lucknow'' \<and>
   main_get_district_name box_contains [(''Lucknow'', Box 80 26 82 28)] 27 85
     = ''District out of UP'' \<and>
   terra_get_district_name box_contains [(''Lucknow'', Box 80 26 82 28)] 27 85 = None \<and>
   box_boundary (Box 80 26 82 28) (Point 81 26) \<and> \<not> box_contains (Box 80 26 82 28) (Point 81 26)"
  using contained_point_is_classified
    [of 27 81 "''Lucknow''" "Box 80 26 82 28" "[(''Lucknow'', Box 80 26 82 28)]" box_contains
      "Box 80 26 82 28" "Point 81 26"]
    contained_point_is_classified
    [of 27 85 "''Lucknow''" "Box 80 26 82 28" "[(''Lucknow'', Box 80 26 82 28)]" box_contains
      "Box 80 26 82 28" "Point 81 26"]
  by (simp add: valid_coordinates_def Point_def title_examples)

text \<open>
  C3 as stated fails: a valid point exactly on the boundary of the only region is
  classified as out of region by both scripts.
\<close>

theorem boundary_point_out_of_region:
  "valid_coordinates 26 81 \<and> box_boundary (Box 80 26 82 28) (Point 81 26) \<and>
   main_get_district_name box_contains [(''Lucknow'', Box 80 26 82 28)] 26 81
     = ''District out of UP'' \<and>
   terra_get_district_name box_contains [(''Lucknow'', Box 80 26 82 28)] 26 81 = None"
  by (simp add: valid_coordinates_def main_get_district_name_def terra_get_district_name_def
      Point_def)

text \<open>
  C4 (amended). For every valid pair classified into a region, \<^verbatim>\<open>main.py\<close> (and
  \<^verbatim>\<open>scalp.py\<close>) return the title-cased name, which is the name the store holds after its
  construction; the title-casing is applied at construction and again in each query, where
  it changes nothing. \<^verbatim>\<open>terra.py\<close> applies no title-casing and returns the name as the
  boundary file has it.
\<close>

theorem classified_name_is_store_name:
  assumes "valid_coordinates lat lon"
    and "first_containing contains raw (Point lon lat) = Some name"
  shows "main_get_district_name contains (standardize raw) lat lon = title name \<and>
         first_containing contains (standardize raw) (Point lon lat) = Some (title name) \<and>
         terra_get_district_name contains raw lat lon = Some name"
  using assms
  by (simp add: main_get_district_name_def terra_get_district_name_def
      first_containing_standardize title_idem)

theorem classified_name_is_store_name_witness:
  "valid_coordinates 27 81 \<and>
   main_get_district_name box_contains (standardize [(''lucknow'', Box 80 26 82 28)]) 27 81
     = ''Lucknow'' \<and>
   terra_get_district_name box_contains [(''lucknow'', Box 80 26 82 28)] 27 81 = Some ''lucknow''"
  using classified_name_is_store_name
    [of 27 81 box_contains "[(''lucknow'', Box 80 26 82 28)]" "''lucknow''"]
  by (simp add: valid_coordinates_def Point_def title_examples)

text \<open>
  C4 as stated fails for \<^verbatim>\<open>terra.py\<close>: the result carries the raw name, which is not
  title-cased.
\<close>

theorem terra_returns_raw_name:
  "valid_coordinates 27 81 \<and>
   terra_get_district_name box_contains [(''lucknow'', Box 80 26 82 28)] 27 81
     = Some ''lucknow'' \<and>
   title ''lucknow'' \<noteq> ''lucknow''"
  by (simp add: valid_coordinates_def terra_get_district_name_def Point_def title_examples)

text \<open>
  C8. For every valid pair, when the region \<open>(name, g)\<close> contains the point and no region
  before it in store order does, the result is the name of that region, whatever regions
  follow it: \<^verbatim>\<open>terra.py\<close> returns \<open>name\<close>, \<^verbatim>\<open>main.py\<close> returns \<open>title name\<close>, which is the
  name at that position of the store \<^verbatim>\<open>main.py\<close> builds.
\<close>

theorem first_match_in_store_order:
  assumes "valid_coordinates lat lon"
    and "\<forall>(n, g') \<in> set pre. \<not> contains g' (Point lon lat)"
    and "contains g (Point lon lat)"
  shows "terra_get_district_name contains (pre @ (name, g) # post) lat lon = Some name \<and>
         main_get_district_name contains (pre @ (name, g) # post) lat lon = title name \<and>
         main_get_district_name contains (standardize (pre @ (name, g) # post)) lat lon
           = fst (standardize (pre @ (name, g) # post) ! length pre)"
proof -
  have f: "first_containing contains (pre @ (name, g) # post) (Point lon lat) = Some name"
    using assms(2,3) by (simp add: first_containing_skip)
  have "standardize (pre @ (name, g) # post) ! length pre = (title name, g)"
    by (simp add: standardize_def nth_append)
  then show ?thesis
    using f assms(1)
    by (simp add: main_get_district_name_def terra_get_district_name_def
        first_containing_standardize title_idem)
qed

theorem first_match_in_store_order_witness:
  "terra_get_district_name box_contains
     [(''Agra'', Box 77 26 79 28), (''Lucknow'', Box 80 26 82 28), (''Unnao'', Box 80 26 81 27)]
     (53 / 2) (161 / 2) = Some ''Lucknow'' \<and>
   main_get_district_name box_contains
     [(''Agra'', Box 77 26 79 28), (''Lucknow'', Box 80 26 82 28), (''Unnao'', Box 80 26 81 27)]
     (53 / 2) (161 / 2) = ''Lucknow'' \<and>
   box_contains (Box 80 26 81 27) (Point (161 / 2) (53 / 2))"
  using first_match_in_store_order
    [of "53 / 2" "161 / 2" "[(''Agra'', Box 77 26 79 28)]" box_contains "Box 80 26 82 28"
      "''Lucknow''" "[(''Unnao'', Box 80 26 81 27)]"]
  by (simp add: valid_coordinates_def Point_def title_examples)

section \<open>Properties of the counting loops\<close>

lemma bind_err_simps:
  "bind_err (Inl e) k = Inl e" "bind_err (Inr v) k = k v"
  by (simp_all add: bind_err_def)

lemma present_pair_cases:
  "present_pair cols row a b =
     (if a \<notin> set cols then Inl (KeyError RowColumn a)
      else case row a of
        None \<Rightarrow> Inr None
      | Some x \<Rightarrow>
          if b \<notin> set cols then Inl (KeyError RowColumn b)
          else case row b of None \<Rightarrow> Inr None | Some y \<Rightarrow> Inr (Some (x, y)))"
  by (simp add: present_pair_def row_get_def bind_err_simps split: option.split)

lemma bump_alt: "bump c d counts = map (\<lambda>(k, v). if k = d then (k, step c v) else (k, v)) counts"
  by (simp add: bump_def)

lemma bump_absent: "d \<notin> fst ` set counts \<Longrightarrow> bump c d counts = counts"
  by (induction counts) (auto simp: bump_alt)

lemma bump_keys: "map fst (bump c d counts) = map fst counts"
  by (induction counts) (auto simp: bump_alt)

lemma bump_commute: "bump c d (bump c d' counts) = bump c d' (bump c d counts)"
  by (induction counts) (auto simp: bump_alt)

lemma update_is_bump:
  assumes "distinct (map fst counts)" and "map_of counts d = Some v"
  shows "AList.update d (step c v) counts = bump c d counts"
  using assms
proof (induction counts)
  case Nil
  then show ?case by simp
next
  case (Cons kv rest)
  obtain k w where kv: "kv = (k, w)" by (cases kv)
  show ?case
  proof (cases "k = d")
    case True
    with Cons.prems kv have w: "w = v" and "d \<notin> fst ` set rest" by auto
    then have "bump c d rest = rest" by (simp add: bump_absent)
    then have "map (\<lambda>(k, v). if k = d then (k, step c v) else (k, v)) rest = rest"
      by (simp add: bump_alt)
    then show ?thesis using True kv w by (simp add: bump_alt)
  next
    case False
    with Cons.prems kv have "distinct (map fst rest)" and "map_of rest d = Some v" by auto
    from Cons.IH [OF this] show ?thesis using False kv by (simp add: bump_alt)
  qed
qed

lemma increment_is_bump:
  assumes "distinct (map fst counts)" and "d \<in> fst ` set counts"
  shows "increment c d counts = Inr (bump c d counts)"
proof -
  from assms(2) obtain v where v: "map_of counts d = Some v"
    by (metis domD dom_map_of_conv_image_fst)
  show ?thesis
    using v update_is_bump [OF assms(1) v, of c]
    by (cases v; cases c) (simp_all add: increment_def step_def)
qed

lemma first_containing_in_image:
  "first_containing contains districts p = Some name \<Longrightarrow> name \<in> fst ` set districts"
  using first_containing_in_names [of contains districts p name] by simp

lemma count_body_closed:
  assumes "distinct (map fst counts)" and "fst ` set districts \<subseteq> fst ` set counts"
  shows "count_body contains districts cols a b c counts row =
     (case loop_error cols a b [row] of
        Some e \<Rightarrow> Inl e
      | None \<Rightarrow> Inr (case row_district contains districts a b row of
                       None \<Rightarrow> counts | Some d \<Rightarrow> bump c d counts))"
proof -
  have inc: "increment c d counts = Inr (bump c d counts)"
    if "terra_get_district_name contains districts lat lon = Some d" for lat lon d
    using that assms increment_is_bump [of counts d c]
      first_containing_in_image [of contains districts "Point lon lat" d]
    by (auto simp: terra_get_district_name_def)
  show ?thesis
    by (auto simp: count_body_def present_pair_cases loop_error_def row_district_def
        bind_err_simps inc split: option.split)
qed

lemma loop_error_Cons:
  "loop_error cols a b (row # rows) =
     (case loop_error cols a b [row] of Some e \<Rightarrow> Some e | None \<Rightarrow> loop_error cols a b rows)"
  by (auto simp: loop_error_def)

lemma for_rows_closed:
  assumes "distinct (map fst counts)" and "fst ` set districts \<subseteq> fst ` set counts"
  shows "for_rows (count_body contains districts cols a b c) rows counts =
     (case loop_error cols a b rows of
        Some e \<Rightarrow> Inl e
      | None \<Rightarrow> Inr (fold (bump c)
                       (List.map_filter (row_district contains districts a b) rows) counts))"
  using assms
proof (induction rows arbitrary: counts)
  case Nil
  show ?case by (simp add: loop_error_def map_filter_simps)
next
  case (Cons row rows)
  note body = count_body_closed [OF Cons.prems, of contains cols a b c row]
  show ?case
  proof (cases "loop_error cols a b [row]")
    case (Some e)
    then show ?thesis using body by (simp add: loop_error_Cons [of cols a b row rows])
  next
    case None
    define counts' where "counts' =
      (case row_district contains districts a b row of None \<Rightarrow> counts | Some d \<Rightarrow> bump c d counts)"
    have keys: "map fst counts' = map fst counts"
      by (simp add: counts'_def bump_keys split: option.split)
    then have "distinct (map fst counts')" using Cons.prems(1) by simp
    moreover have "fst ` set districts \<subseteq> fst ` set counts'"
      using Cons.prems(2) keys by (metis set_map)
    ultimately have IH: "for_rows (count_body contains districts cols a b c) rows counts' =
      (case loop_error cols a b rows of
        Some e \<Rightarrow> Inl e
      | None \<Rightarrow> Inr (fold (bump c)
                       (List.map_filter (row_district contains districts a b) rows) counts'))"
      by (rule Cons.IH)
    have "for_rows (count_body contains districts cols a b c) (row # rows) counts =
        for_rows (count_body contains districts cols a b c) rows counts'"
      using body None by (simp add: counts'_def)
    also note IH
    finally show ?thesis
      using None
      by (simp add: loop_error_Cons [of cols a b row rows] counts'_def map_filter_simps
          split: option.split)
  qed
qed

lemma fold_init_keys:
  "fst ` set (fold (\<lambda>d c. AList.update d (0::int, 0::int) c) names acc) = set names \<union> fst ` set acc"
  by (induction names arbitrary: acc) (auto simp: dom_update)

lemma fold_init_distinct:
  "distinct (map fst acc) \<Longrightarrow>
   distinct (map fst (fold (\<lambda>d c. AList.update d (0::int, 0::int) c) names acc))"
  by (induction names arbitrary: acc) (simp_all add: distinct_update)

lemma fold_init_map_of:
  "map_of (fold (\<lambda>d c. AList.update d (0::int, 0::int) c) names acc) d =
     (if d \<in> set names then Some (0, 0) else map_of acc d)"
  by (induction names arbitrary: acc) (auto simp: update_conv')

lemma counts_init_keys: "fst ` set (counts_init names) = set names"
  by (simp add: counts_init_def fold_init_keys)

lemma counts_init_distinct: "distinct (map fst (counts_init names))"
  by (simp add: counts_init_def fold_init_distinct)

lemma counts_init_map_of: "d \<in> set names \<Longrightarrow> map_of (counts_init names) d = Some (0, 0)"
  by (simp add: counts_init_def fold_init_map_of)

lemma fold_bump_keys: "map fst (fold (bump c) ds counts) = map fst counts"
  by (induction ds arbitrary: counts) (simp_all add: bump_keys)

lemma bump_other: "k \<noteq> d \<Longrightarrow> map_of (bump c d counts) k = map_of counts k"
  by (induction counts) (auto simp: bump_def)

lemma fold_bump_other: "k \<notin> set ds \<Longrightarrow> map_of (fold (bump c) ds counts) k = map_of counts k"
  by (induction ds arbitrary: counts) (auto simp: bump_other)

lemma fold_bump_mset:
  assumes "mset ds = mset ds'"
  shows "fold (bump c) ds counts = fold (bump c) ds' counts"
proof -
  have "bump c x \<circ> bump c y = bump c y \<circ> bump c x" for x y
    by (rule ext) (simp add: bump_commute)
  then have "fold (bump c) ds = fold (bump c) ds'"
    using assms by (intro fold_multiset_equiv)
  then show ?thesis by simp
qed

lemma map_filter_mset:
  "mset rows = mset rows' \<Longrightarrow> mset (List.map_filter f rows) = mset (List.map_filter f rows')"
  by (simp add: List.map_filter_def)

lemma loop_error_mset:
  assumes "mset rows = mset rows'"
  shows "loop_error cols a b rows = loop_error cols a b rows'"
proof -
  have "set rows = set rows'" using assms by (rule mset_eq_setD)
  moreover have "rows = [] \<longleftrightarrow> rows' = []" using assms by (metis mset_zero_iff)
  ultimately show ?thesis by (simp add: loop_error_def)
qed

lemma tally_mset:
  assumes "mset rows = mset rows'"
  shows "tally contains districts rows = tally contains districts rows'"
  unfolding tally_def
  using fold_bump_mset [OF map_filter_mset [OF assms]] by metis

lemma terra_run_closed:
  "terra_run contains frame data =
     (let col = terra_district_name_col (gcolumns frame) in
      if col \<notin> set (gcolumns frame) then Inl (KeyError FrameColumn col)
      else case loop_error (tcolumns data) ''Lat1'' ''Long1'' (trows data) of
        Some e \<Rightarrow> Inl e
      | None \<Rightarrow>
          (case loop_error (tcolumns data) ''Lat2'' ''Long2'' (trows data) of
             Some e \<Rightarrow> Inl e
           | None \<Rightarrow> Inr (output_df (tally contains (named_districts col frame) (trows data)))))"
proof -
  define districts where
    "districts = named_districts (terra_district_name_col (gcolumns frame)) frame"
  define c0 where "c0 = counts_init (map fst districts)"
  define c1 where "c1 = fold (bump Green)
    (List.map_filter (row_district contains districts ''Lat1'' ''Long1'') (trows data)) c0"
  have d0: "distinct (map fst c0)" and k0: "fst ` set districts \<subseteq> fst ` set c0"
    by (simp_all add: c0_def counts_init_distinct counts_init_keys)
  have keys: "map fst c1 = map fst c0" by (simp add: c1_def fold_bump_keys)
  have d1: "distinct (map fst c1)" using d0 keys by simp
  have k1: "fst ` set districts \<subseteq> fst ` set c1" using k0 keys by (metis set_map)
  note l1 = for_rows_closed [OF d0 k0, of contains "tcolumns data" "''Lat1''" "''Long1''" Green
      "trows data", folded c1_def]
  note l2 = for_rows_closed [OF d1 k1, of contains "tcolumns data" "''Lat2''" "''Long2''" Red
      "trows data"]
  have t: "tally contains districts (trows data) = fold (bump Red)
    (List.map_filter (row_district contains districts ''Lat2'' ''Long2'') (trows data)) c1"
    by (simp add: tally_def c1_def c0_def)
  show ?thesis
    unfolding terra_run_def Let_def districts_def [symmetric] c0_def [symmetric]
    by (simp add: l1 l2 t bind_err_simps split: option.split)
qed

lemma loop_error_None:
  "a \<in> set cols \<Longrightarrow> b \<in> set cols \<Longrightarrow> loop_error cols a b rows = None"
  by (simp add: loop_error_def)

lemma loop_error_RowColumn:
  "loop_error cols a b rows = Some e \<Longrightarrow> e = KeyError RowColumn a \<or> e = KeyError RowColumn b"
  by (auto simp: loop_error_def split: if_splits)

lemma for_rows_skip:
  assumes "\<And>s. body s row = Inr s"
  shows "for_rows body (pre @ row # post) s = for_rows body (pre @ post) s"
  by (induction pre arbitrary: s) (simp_all add: assms split: sum.split)

lemma map_filter_absent:
  "(\<forall>x \<in> set xs. f x \<noteq> Some y) \<Longrightarrow> y \<notin> set (List.map_filter f xs)"
  by (induction xs) (auto split: option.split)

lemma tally_keys:
  "map fst (tally contains districts rows) = map fst (counts_init (map fst districts))"
  by (simp add: tally_def fold_bump_keys)

lemma tally_untouched:
  assumes "d \<in> set (map fst districts)"
    and "\<forall>row \<in> set rows. row_district contains districts ''Lat1'' ''Long1'' row \<noteq> Some d"
    and "\<forall>row \<in> set rows. row_district contains districts ''Lat2'' ''Long2'' row \<noteq> Some d"
  shows "map_of (tally contains districts rows) d = Some (0, 0)"
  using assms
  by (simp add: tally_def fold_bump_other map_filter_absent counts_init_map_of)

lemma output_df_keys: "map fst (output_df counts) = map fst counts"
  by (induction counts) (auto simp: output_df_def)

lemma output_df_member: "map_of counts d = Some (g, r) \<Longrightarrow> (d, g, r) \<in> set (output_df counts)"
  by (drule map_of_SomeD) (force simp: output_df_def)

lemma row_district_SomeD:
  "row_district contains districts a b row = Some d \<Longrightarrow>
     \<exists>lat lon. row a = Some lat \<and> row b = Some lon \<and>
       terra_get_district_name contains districts lat lon = Some d"
  by (auto simp: row_district_def split: option.splits if_splits)

lemma terra_col_present:
  "''district'' \<in> set columns \<or> ''DISTRICT'' \<in> set columns \<Longrightarrow>
     terra_district_name_col columns \<in> set columns"
  by (auto simp: terra_district_name_col_def)

lemma required_cols_present:
  "(\<forall>col \<in> set required_cols. col \<in> set cols) \<longleftrightarrow>
     ''Lat1'' \<in> set cols \<and> ''Long1'' \<in> set cols \<and> ''Lat2'' \<in> set cols \<and> ''Long2'' \<in> set cols"
  by (simp add: required_cols_def)

lemma imd_body_dropped:
  assumes "''Lat1'' \<in> set cols" "''Long1'' \<in> set cols"
    and "row ''Lat1'' = Some lat" "row ''Long1'' = Some lon"
    and "main_get_district_name contains districts lat lon
           \<in> {''District out of UP'', ''Invalid Coordinates''}"
  shows "imd_marker_body contains districts cols fg row = Inr fg"
  using assms by (auto simp: imd_marker_body_def present_pair_cases bind_err_simps)

lemma rahat_body_dropped:
  assumes "''Lat2'' \<in> set cols" "''Long2'' \<in> set cols"
    and "row ''Lat2'' = Some lat" "row ''Long2'' = Some lon"
    and "main_get_district_name contains districts lat lon
           \<in> {''District out of UP'', ''Invalid Coordinates''}"
  shows "rahat_marker_body contains districts cols fg row = Inr fg"
  using assms by (auto simp: rahat_marker_body_def present_pair_cases bind_err_simps)

lemma count_body_dropped:
  assumes "a \<in> set cols" "b \<in> set cols"
    and "row a = Some lat" "row b = Some lon"
    and "terra_get_district_name contains districts lat lon = None"
  shows "count_body contains districts cols a b c counts row = Inr counts"
  using assms by (simp add: count_body_def present_pair_cases bind_err_simps)



lemmas run_defs = terra_run_def terra_district_name_col_def example_frame_def named_districts_def
      counts_init_def required_cols_def count_body_def present_pair_def row_get_def bind_err_def
      reading_of_def terra_get_district_name_def Point_def increment_def output_df_def
      main_run_def main_district_name_col_def imd_marker_body_def rahat_marker_body_def
      main_get_district_name_def valid_coordinates_def standardize_def no_markers_def
      circle_marker_def

section \<open>Claims about the runs\<close>

text \<open>
  C2 (amended). In \<^verbatim>\<open>main.py\<close> (and \<^verbatim>\<open>scalp.py\<close>), for every readings table that lacks one
  of the columns \<^verbatim>\<open>Lat1, Long1, Lat2, Long2\<close>, the run ends with the diagnostic and
  \<^verbatim>\<open>exit(1)\<close>, whatever the rows and the boundary file are: the check is made once, before
  any row is read and before any marker exists. \<^verbatim>\<open>terra.py\<close> makes no such check: with no
  rows it exports the all-zero table, and when \<^verbatim>\<open>Lat1\<close> is missing and there is a row it
  ends with \<^verbatim>\<open>KeyError\<close> at the first row.
\<close>

theorem missing_columns_abort_main:
  assumes "\<not> (\<forall>col \<in> set required_cols. col \<in> set (tcolumns data))"
  shows "main_run contains frame data
           = Inl (SystemExit 1 (CsvMustContainColumns required_cols)) \<and>
         (terra_district_name_col (gcolumns frame) \<in> set (gcolumns frame) \<longrightarrow>
            (trows data = [] \<longrightarrow>
               terra_run contains frame data
                 = Inr (output_df (counts_init (map fst
                     (named_districts (terra_district_name_col (gcolumns frame)) frame))))) \<and>
            (trows data \<noteq> [] \<and> ''Lat1'' \<notin> set (tcolumns data) \<longrightarrow>
               terra_run contains frame data = Inl (KeyError RowColumn ''Lat1'')))"
  using assms
  by (simp add: main_run_def terra_run_closed Let_def loop_error_def tally_def)

theorem missing_columns_abort_main_witness:
  "''Lat1'' \<notin> set [''Long1'', ''Lat2'', ''Long2''] \<and>
   main_run box_contains example_frame
     \<lparr>tcolumns = [''Long1'', ''Lat2'', ''Long2''],
      trows = [reading_of None (Some 81) (Some 27) (Some 78)]\<rparr>
     = Inl (SystemExit 1 (CsvMustContainColumns [''Lat1'', ''Long1'', ''Lat2'', ''Long2''])) \<and>
   terra_run box_contains example_frame
     \<lparr>tcolumns = [''Long1'', ''Lat2'', ''Long2''],
      trows = [reading_of None (Some 81) (Some 27) (Some 78)]\<rparr>
     = Inl (KeyError RowColumn ''Lat1'') \<and>
   terra_run box_contains example_frame \<lparr>tcolumns = [''Long1'', ''Lat2'', ''Long2''], trows = []\<rparr>
     = Inr [(''lucknow'', 0, 0), (''agra'', 0, 0)]"
  using missing_columns_abort_main
      [of "\<lparr>tcolumns = [''Long1'', ''Lat2'', ''Long2''],
            trows = [reading_of None (Some 81) (Some 27) (Some 78)]\<rparr>" box_contains example_frame]
    missing_columns_abort_main
      [of "\<lparr>tcolumns = [''Long1'', ''Lat2'', ''Long2''], trows = []\<rparr>" box_contains example_frame]
  by (simp add: required_cols_def terra_district_name_col_def example_frame_def
      named_districts_def counts_init_def output_df_def)

text \<open>
  C2 as stated fails for \<^verbatim>\<open>terra.py\<close>: a table without the column \<^verbatim>\<open>Long1\<close> whose only
  row has no \<^verbatim>\<open>Lat1\<close> value is processed to the end and its count table is exported.
\<close>

theorem terra_exports_despite_missing_column:
  "''Long1'' \<notin> set [''Lat1'', ''Lat2'', ''Long2''] \<and>
   terra_run box_contains example_frame
     \<lparr>tcolumns = [''Lat1'', ''Lat2'', ''Long2''],
      trows = [reading_of None None (Some 27) (Some 78)]\<rparr>
     = Inr [(''lucknow'', 0, 0), (''agra'', 0, 1)]"
  by (simp add: run_defs)

text \<open>
  C5. An event whose classification is \<^verbatim>\<open>"District out of UP"\<close> or
  \<^verbatim>\<open>"Invalid Coordinates"\<close> (\<^verbatim>\<open>main.py\<close>) or \<^verbatim>\<open>None\<close> (\<^verbatim>\<open>terra.py\<close>) records nothing: the
  loop body returns the feature groups, respectively the counts, unchanged and raises
  nothing, and a loop over rows gives the same result with and without that row.
\<close>

theorem dropped_events_leave_no_trace:
  assumes "\<forall>col \<in> set required_cols. col \<in> set cols"
  shows
    "(row ''Lat1'' = Some lat \<and> row ''Long1'' = Some lon \<and>
      main_get_district_name contains districts lat lon
        \<in> {''District out of UP'', ''Invalid Coordinates''} \<longrightarrow>
        imd_marker_body contains districts cols fg row = Inr fg \<and>
        for_rows (imd_marker_body contains districts cols) (pre @ row # post) fg
          = for_rows (imd_marker_body contains districts cols) (pre @ post) fg) \<and>
     (row ''Lat2'' = Some lat \<and> row ''Long2'' = Some lon \<and>
      main_get_district_name contains districts lat lon
        \<in> {''District out of UP'', ''Invalid Coordinates''} \<longrightarrow>
        rahat_marker_body contains districts cols fg row = Inr fg \<and>
        for_rows (rahat_marker_body contains districts cols) (pre @ row # post) fg
          = for_rows (rahat_marker_body contains districts cols) (pre @ post) fg) \<and>
     (row ''Lat1'' = Some lat \<and> row ''Long1'' = Some lon \<and>
      terra_get_district_name contains districts lat lon = None \<longrightarrow>
        count_body contains districts cols ''Lat1'' ''Long1'' Green counts row = Inr counts \<and>
        for_rows (count_body contains districts cols ''Lat1'' ''Long1'' Green) (pre @ row # post) counts
          = for_rows (count_body contains districts cols ''Lat1'' ''Long1'' Green) (pre @ post) counts) \<and>
     (row ''Lat2'' = Some lat \<and> row ''Long2'' = Some lon \<and>
      terra_get_district_name contains districts lat lon = None \<longrightarrow>
        count_body contains districts cols ''Lat2'' ''Long2'' Red counts row = Inr counts \<and>
        for_rows (count_body contains districts cols ''Lat2'' ''Long2'' Red) (pre @ row # post) counts
          = for_rows (count_body contains districts cols ''Lat2'' ''Long2'' Red) (pre @ post) counts)"
proof -
  from assms have cols: "''Lat1'' \<in> set cols" "''Long1'' \<in> set cols"
    "''Lat2'' \<in> set cols" "''Long2'' \<in> set cols"
    by (simp_all add: required_cols_present)
  show ?thesis
  proof (intro conjI impI)
    assume h: "row ''Lat1'' = Some lat \<and> row ''Long1'' = Some lon \<and>
      main_get_district_name contains districts lat lon
        \<in> {''District out of UP'', ''Invalid Coordinates''}"
    then have b: "imd_marker_body contains districts cols s row = Inr s" for s
      using cols by (intro imd_body_dropped [of cols row lat lon]) simp_all
    show "imd_marker_body contains districts cols fg row = Inr fg" by (rule b)
    show "for_rows (imd_marker_body contains districts cols) (pre @ row # post) fg
          = for_rows (imd_marker_body contains districts cols) (pre @ post) fg"
      by (rule for_rows_skip) (rule b)
  next
    assume h: "row ''Lat2'' = Some lat \<and> row ''Long2'' = Some lon \<and>
      main_get_district_name contains districts lat lon
        \<in> {''District out of UP'', ''Invalid Coordinates''}"
    then have b: "rahat_marker_body contains districts cols s row = Inr s" for s
      using cols by (intro rahat_body_dropped [of cols row lat lon]) simp_all
    show "rahat_marker_body contains districts cols fg row = Inr fg" by (rule b)
    show "for_rows (rahat_marker_body contains districts cols) (pre @ row # post) fg
          = for_rows (rahat_marker_body contains districts cols) (pre @ post) fg"
      by (rule for_rows_skip) (rule b)
  next
    assume h: "row ''Lat1'' = Some lat \<and> row ''Long1'' = Some lon \<and>
      terra_get_district_name contains districts lat lon = None"
    then have b: "count_body contains districts cols ''Lat1'' ''Long1'' Green s row = Inr s" for s
      using cols by (intro count_body_dropped [of _ cols _ row lat lon]) simp_all
    show "count_body contains districts cols ''Lat1'' ''Long1'' Green counts row = Inr counts"
      by (rule b)
    show "for_rows (count_body contains districts cols ''Lat1'' ''Long1'' Green) (pre @ row # post) counts
          = for_rows (count_body contains districts cols ''Lat1'' ''Long1'' Green) (pre @ post) counts"
      by (rule for_rows_skip) (rule b)
  next
    assume h: "row ''Lat2'' = Some lat \<and> row ''Long2'' = Some lon \<and>
      terra_get_district_name contains districts lat lon = None"
    then have b: "count_body contains districts cols ''Lat2'' ''Long2'' Red s row = Inr s" for s
      using cols by (intro count_body_dropped [of _ cols _ row lat lon]) simp_all
    show "count_body contains districts cols ''Lat2'' ''Long2'' Red counts row = Inr counts"
      by (rule b)
    show "for_rows (count_body contains districts cols ''Lat2'' ''Long2'' Red) (pre @ row # post) counts
          = for_rows (count_body contains districts cols ''Lat2'' ''Long2'' Red) (pre @ post) counts"
      by (rule for_rows_skip) (rule b)
  qed
qed

theorem dropped_events_leave_no_trace_witness:
  "main_get_district_name box_contains [(''Lucknow'', Box 80 26 82 28)] 95 81
     = ''Invalid Coordinates'' \<and>
   terra_get_district_name box_contains [(''Lucknow'', Box 80 26 82 28)] 95 81 = None \<and>
   imd_marker_body box_contains [(''Lucknow'', Box 80 26 82 28)] required_cols no_markers
     (reading_of (Some 95) (Some 81) (Some 95) (Some 81)) = Inr no_markers \<and>
   rahat_marker_body box_contains [(''Lucknow'', Box 80 26 82 28)] required_cols no_markers
     (reading_of (Some 95) (Some 81) (Some 95) (Some 81)) = Inr no_markers \<and>
   count_body box_contains [(''Lucknow'', Box 80 26 82 28)] required_cols ''Lat1'' ''Long1'' Green
     [(''Lucknow'', (0, 0))] (reading_of (Some 95) (Some 81) (Some 95) (Some 81))
     = Inr [(''Lucknow'', (0, 0))] \<and>
   count_body box_contains [(''Lucknow'', Box 80 26 82 28)] required_cols ''Lat2'' ''Long2'' Red
     [(''Lucknow'', (0, 0))] (reading_of (Some 95) (Some 81) (Some 95) (Some 81))
     = Inr [(''Lucknow'', (0, 0))]"
  using dropped_events_leave_no_trace
    [of required_cols "reading_of (Some 95) (Some 81) (Some 95) (Some 81)" 95 81 box_contains
      "[(''Lucknow'', Box 80 26 82 28)]" no_markers "[]" "[]" "[(''Lucknow'', (0, 0))]"]
  by (simp add: reading_of_def main_get_district_name_def valid_coordinates_def
      terra_get_district_name_def Point_def)

text \<open>
  C6. The result of \<^verbatim>\<open>terra.py\<close> (the exported count table, or the exception the run ends
  with) is the same for a readings table and for every permutation of its rows.
\<close>

theorem aggregate_permutation_invariant:
  assumes "mset (trows data') = mset (trows data)" and "tcolumns data' = tcolumns data"
  shows "terra_run contains frame data' = terra_run contains frame data"
  by (simp add: terra_run_closed Let_def assms(2) loop_error_mset [OF assms(1)]
      tally_mset [OF assms(1)] split: option.split)

theorem aggregate_permutation_invariant_witness:
  "terra_run box_contains example_frame
     \<lparr>tcolumns = required_cols,
      trows = [reading_of (Some 95) (Some 81) (Some 27) (Some 78),
               reading_of (Some 27) (Some 81) None None]\<rparr>
   = terra_run box_contains example_frame
     \<lparr>tcolumns = required_cols,
      trows = [reading_of (Some 27) (Some 81) None None,
               reading_of (Some 95) (Some 81) (Some 27) (Some 78)]\<rparr> \<and>
   terra_run box_contains example_frame
     \<lparr>tcolumns = required_cols,
      trows = [reading_of (Some 27) (Some 81) None None,
               reading_of (Some 95) (Some 81) (Some 27) (Some 78)]\<rparr>
   = Inr [(''lucknow'', 1, 0), (''agra'', 0, 1)]"
proof -
  have "terra_run box_contains example_frame
     \<lparr>tcolumns = required_cols,
      trows = [reading_of (Some 27) (Some 81) None None,
               reading_of (Some 95) (Some 81) (Some 27) (Some 78)]\<rparr>
   = Inr [(''lucknow'', 1, 0), (''agra'', 0, 1)]"
    by (simp add: run_defs)
  then show ?thesis
    using aggregate_permutation_invariant
      [of "\<lparr>tcolumns = required_cols,
            trows = [reading_of (Some 95) (Some 81) (Some 27) (Some 78),
                     reading_of (Some 27) (Some 81) None None]\<rparr>"
          "\<lparr>tcolumns = required_cols,
            trows = [reading_of (Some 27) (Some 81) None None,
                     reading_of (Some 95) (Some 81) (Some 27) (Some 78)]\<rparr>"
          box_contains example_frame]
    by simp
qed



text \<open>
  C9. When the boundary file has a district name column and the readings table has the
  four columns, \<^verbatim>\<open>terra.py\<close> runs to the end and its table has exactly one row for every
  distinct district name of the boundary file; a district into which no pair of any row is
  classified has the row \<open>(name, 0, 0)\<close>.
\<close>

theorem every_district_is_exported:
  assumes "''district'' \<in> set (gcolumns frame) \<or> ''DISTRICT'' \<in> set (gcolumns frame)"
    and "\<forall>col \<in> set required_cols. col \<in> set (tcolumns data)"
  shows "\<exists>out. terra_run contains frame data = Inr out \<and>
           distinct (map fst out) \<and>
           set (map fst out)
             = set (map fst (named_districts (terra_district_name_col (gcolumns frame)) frame)) \<and>
           (\<forall>d \<in> set (map fst out).
              (\<forall>row \<in> set (trows data). \<forall>lat lon.
                 (row ''Lat1'' = Some lat \<and> row ''Long1'' = Some lon \<or>
                  row ''Lat2'' = Some lat \<and> row ''Long2'' = Some lon) \<longrightarrow>
                 terra_get_district_name contains
                   (named_districts (terra_district_name_col (gcolumns frame)) frame) lat lon
                   \<noteq> Some d) \<longrightarrow>
              (d, 0, 0) \<in> set out)"
proof -
  define districts where
    "districts = named_districts (terra_district_name_col (gcolumns frame)) frame"
  define out where "out = output_df (tally contains districts (trows data))"
  from assms(2) have cols: "''Lat1'' \<in> set (tcolumns data)" "''Long1'' \<in> set (tcolumns data)"
    "''Lat2'' \<in> set (tcolumns data)" "''Long2'' \<in> set (tcolumns data)"
    by (simp_all add: required_cols_present)
  have run: "terra_run contains frame data = Inr out"
    using terra_col_present [OF assms(1)]
    by (simp add: terra_run_closed Let_def cols loop_error_None out_def districts_def)
  have keys: "map fst out = map fst (counts_init (map fst districts))"
    by (simp add: out_def output_df_keys tally_keys)
  have dist: "distinct (map fst out)"
    by (simp add: keys counts_init_distinct)
  have names: "set (map fst out) = set (map fst districts)"
    using counts_init_keys [of "map fst districts"] by (simp add: keys)
  have zero: "(d, 0, 0) \<in> set out"
    if d: "d \<in> set (map fst out)"
      and none: "\<forall>row \<in> set (trows data). \<forall>lat lon.
                 (row ''Lat1'' = Some lat \<and> row ''Long1'' = Some lon \<or>
                  row ''Lat2'' = Some lat \<and> row ''Long2'' = Some lon) \<longrightarrow>
                 terra_get_district_name contains districts lat lon \<noteq> Some d" for d
  proof -
    have a: "\<forall>row \<in> set (trows data).
        row_district contains districts ''Lat1'' ''Long1'' row \<noteq> Some d"
      using none by (blast dest: row_district_SomeD)
    have b: "\<forall>row \<in> set (trows data).
        row_district contains districts ''Lat2'' ''Long2'' row \<noteq> Some d"
      using none by (blast dest: row_district_SomeD)
    from d names have "d \<in> set (map fst districts)" by simp
    from tally_untouched [OF this a b] show ?thesis
      unfolding out_def by (rule output_df_member)
  qed
  show ?thesis
    using run dist names zero unfolding districts_def [symmetric]
    by (intro exI [of _ out]) blast
qed

theorem every_district_is_exported_witness:
  "\<exists>out. terra_run box_contains example_frame
       \<lparr>tcolumns = required_cols, trows = [reading_of (Some 27) (Some 81) None None]\<rparr> = Inr out \<and>
     distinct (map fst out) \<and> set (map fst out) = {''lucknow'', ''agra''} \<and>
     (''agra'', 0, 0) \<in> set out"
proof -
  define data where
    "data = \<lparr>tcolumns = required_cols, trows = [reading_of (Some 27) (Some 81) None None]\<rparr>"
  define districts where
    "districts = named_districts (terra_district_name_col (gcolumns example_frame)) example_frame"
  have h1: "''district'' \<in> set (gcolumns example_frame) \<or> ''DISTRICT'' \<in> set (gcolumns example_frame)"
    by (simp add: example_frame_def)
  have h2: "\<forall>col \<in> set required_cols. col \<in> set (tcolumns data)"
    by (simp add: data_def)
  have n: "districts = [(''lucknow'', Box 80 26 82 28), (''agra'', Box 77 26 79 28)]"
    by (simp add: districts_def named_districts_def terra_district_name_col_def example_frame_def)
  from every_district_is_exported [OF h1 h2, of box_contains, folded districts_def]
  obtain out where A:
    "terra_run box_contains example_frame data = Inr out \<and>
     distinct (map fst out) \<and>
     set (map fst out) = set (map fst districts) \<and>
     (\<forall>d \<in> set (map fst out).
        (\<forall>row \<in> set (trows data). \<forall>lat lon.
           (row ''Lat1'' = Some lat \<and> row ''Long1'' = Some lon \<or>
            row ''Lat2'' = Some lat \<and> row ''Long2'' = Some lon) \<longrightarrow>
           terra_get_district_name box_contains districts lat lon \<noteq> Some d) \<longrightarrow>
        (d, 0, 0) \<in> set out)" ..
  from A have run: "terra_run box_contains example_frame data = Inr out" by (rule conjunct1)
  from A have d: "distinct (map fst out)" by (rule conjunct1 [OF conjunct2])
  from A have s: "set (map fst out) = set (map fst districts)"
    by (rule conjunct1 [OF conjunct2 [OF conjunct2]])
  from A have z: "\<forall>d \<in> set (map fst out).
        (\<forall>row \<in> set (trows data). \<forall>lat lon.
           (row ''Lat1'' = Some lat \<and> row ''Long1'' = Some lon \<or>
            row ''Lat2'' = Some lat \<and> row ''Long2'' = Some lon) \<longrightarrow>
           terra_get_district_name box_contains districts lat lon \<noteq> Some d) \<longrightarrow>
        (d, 0, 0) \<in> set out"
    by (rule conjunct2 [OF conjunct2 [OF conjunct2]])
  have s': "set (map fst out) = {''lucknow'', ''agra''}"
    using s by (simp add: n)
  then have m: "''agra'' \<in> set (map fst out)" by simp
  have i: "\<forall>row \<in> set (trows data). \<forall>lat lon.
           (row ''Lat1'' = Some lat \<and> row ''Long1'' = Some lon \<or>
            row ''Lat2'' = Some lat \<and> row ''Long2'' = Some lon) \<longrightarrow>
           terra_get_district_name box_contains districts lat lon \<noteq> Some ''agra''"
    by (simp add: data_def n reading_of_def terra_get_district_name_def Point_def)
  have "(''agra'', 0, 0) \<in> set out" by (rule mp [OF bspec [OF z m] i])
  with run d s' show ?thesis unfolding data_def by (intro exI [of _ out]) simp
qed

text \<open>
  C10. A name returned by \<^verbatim>\<open>get_district_name\<close> of \<^verbatim>\<open>terra.py\<close> is a key of the dictionary
  built from the district name column, and no run of \<^verbatim>\<open>terra.py\<close> ends with a
  \<^verbatim>\<open>KeyError\<close> of the \<^verbatim>\<open>counts\<close> lookup.
\<close>

theorem counts_lookup_never_fails:
  "(terra_get_district_name contains districts lat lon = Some d \<longrightarrow>
      map_of (counts_init (map fst districts)) d = Some (0, 0)) \<and>
   terra_run contains frame data \<noteq> Inl (KeyError CountsDict k)"
proof
  show "terra_get_district_name contains districts lat lon = Some d \<longrightarrow>
      map_of (counts_init (map fst districts)) d = Some (0, 0)"
    by (auto simp: terra_get_district_name_def counts_init_map_of
        dest: first_containing_in_names)
  show "terra_run contains frame data \<noteq> Inl (KeyError CountsDict k)"
    by (auto simp: terra_run_closed Let_def split: option.split dest: loop_error_RowColumn)
qed

theorem counts_lookup_never_fails_witness:
  "terra_get_district_name box_contains [(''Lucknow'', Box 80 26 82 28)] 27 81 = Some ''Lucknow'' \<and>
   map_of (counts_init (map fst [(''Lucknow'', Box 80 26 82 28)])) ''Lucknow'' = Some (0, 0) \<and>
   terra_run box_contains example_frame
     \<lparr>tcolumns = required_cols, trows = [reading_of (Some 27) (Some 81) None None]\<rparr>
     \<noteq> Inl (KeyError CountsDict ''lucknow'')"
  using counts_lookup_never_fails
    [of box_contains "[(''Lucknow'', Box 80 26 82 28)]" 27 81 "''Lucknow''"
      example_frame
      "\<lparr>tcolumns = required_cols, trows = [reading_of (Some 27) (Some 81) None None]\<rparr>"
      "''lucknow''"]
  by (simp add: terra_get_district_name_def Point_def)

end
